theory Spec2Isabelle
  imports Main
begin

section \<open>Data model of \<^verbatim>\<open>pieces.ts\<close>\<close>

text \<open>
  The development follows the latest revision of \<^verbatim>\<open>chess_app/src/pieces.ts\<close>
  (the one whose \<^verbatim>\<open>Piece\<close> interface carries \<^verbatim>\<open>firstMove\<close> and
  \<^verbatim>\<open>enPassant\<close>). Coordinates are integers; a board is the array of its pieces, in
  array order, because \<^verbatim>\<open>getPieceAt\<close>, \<^verbatim>\<open>inCheck\<close> and every \<^verbatim>\<open>move\<close>
  walk that array from the front. The \<^verbatim>\<open>icon\<close> field is a function of class and colour
  and is left out.
\<close>

datatype Color = White | Black

datatype Coordinate = Coordinate (column: int) (row: int)

text \<open>
  One constructor per class, with the arguments of the class constructor: colour, column,
  row, and for \<^verbatim>\<open>Pawn\<close> the flags \<^verbatim>\<open>firstMove\<close> and \<^verbatim>\<open>enPassant\<close>, for
  \<^verbatim>\<open>Rook\<close> and \<^verbatim>\<open>King\<close> the flag \<^verbatim>\<open>firstMove\<close>.
\<close>

datatype Piece =
    Pawn Color int int bool bool
  | Bishop Color int int
  | Rook Color int int bool
  | Queen Color int int
  | King Color int int bool
  | Knight Color int int

fun position :: "Piece \<Rightarrow> Coordinate" where
  "position (Pawn c x y fm ep) = Coordinate x y"
| "position (Bishop c x y) = Coordinate x y"
| "position (Rook c x y fm) = Coordinate x y"
| "position (Queen c x y) = Coordinate x y"
| "position (King c x y fm) = Coordinate x y"
| "position (Knight c x y) = Coordinate x y"

fun color :: "Piece \<Rightarrow> Color" where
  "color (Pawn c x y fm ep) = c"
| "color (Bishop c x y) = c"
| "color (Rook c x y fm) = c"
| "color (Queen c x y) = c"
| "color (King c x y fm) = c"
| "color (Knight c x y) = c"

text \<open>Bishop, Queen and Knight set \<^verbatim>\<open>firstMove\<close> to false in their constructors; only a
  Pawn's \<^verbatim>\<open>enPassant\<close> can be true.\<close>

fun firstMove :: "Piece \<Rightarrow> bool" where
  "firstMove (Pawn c x y fm ep) = fm"
| "firstMove (Rook c x y fm) = fm"
| "firstMove (King c x y fm) = fm"
| "firstMove (Bishop c x y) = False"
| "firstMove (Queen c x y) = False"
| "firstMove (Knight c x y) = False"

fun enPassant :: "Piece \<Rightarrow> bool" where
  "enPassant (Pawn c x y fm ep) = ep"
| "enPassant (Bishop c x y) = False"
| "enPassant (Rook c x y fm) = False"
| "enPassant (Queen c x y) = False"
| "enPassant (King c x y fm) = False"
| "enPassant (Knight c x y) = False"

text \<open>The three \<^verbatim>\<open>instanceof\<close> tests of the source.\<close>

fun isPawn :: "Piece \<Rightarrow> bool" where
  "isPawn (Pawn c x y fm ep) = True"
| "isPawn (Bishop c x y) = False"
| "isPawn (Rook c x y fm) = False"
| "isPawn (Queen c x y) = False"
| "isPawn (King c x y fm) = False"
| "isPawn (Knight c x y) = False"

fun isRook :: "Piece \<Rightarrow> bool" where
  "isRook (Rook c x y fm) = True"
| "isRook (Pawn c x y fm ep) = False"
| "isRook (Bishop c x y) = False"
| "isRook (Queen c x y) = False"
| "isRook (King c x y fm) = False"
| "isRook (Knight c x y) = False"

fun isKing :: "Piece \<Rightarrow> bool" where
  "isKing (King c x y fm) = True"
| "isKing (Pawn c x y fm ep) = False"
| "isKing (Bishop c x y) = False"
| "isKing (Rook c x y fm) = False"
| "isKing (Queen c x y) = False"
| "isKing (Knight c x y) = False"

type_synonym Board = "Piece list"

text \<open>
  Every \<^verbatim>\<open>throw new Error(...)\<close> of the source, one constructor per message:
  \<^verbatim>\<open>"Coordinate out of bounds"\<close> (\<^verbatim>\<open>Board.isEmpty\<close>),
  \<^verbatim>\<open>"Illegal coordinate"\<close> and \<^verbatim>\<open>"No Piece In Space"\<close> (\<^verbatim>\<open>Board.getPieceAt\<close>),
  \<^verbatim>\<open>"Moving piece out of bounds"\<close> (every \<^verbatim>\<open>move\<close>) and
  \<^verbatim>\<open>"Must have a king"\<close> (\<^verbatim>\<open>inCheck\<close>).
\<close>

datatype error =
    CoordinateOutOfBounds
  | IllegalCoordinate
  | NoPieceInSpace
  | MovingPieceOutOfBounds
  | MustHaveAKing

text \<open>Sequencing of two computations that may throw: the first exception wins.\<close>

fun bindE :: "error + 'a \<Rightarrow> ('a \<Rightarrow> error + 'b) \<Rightarrow> error + 'b" where
  "bindE (Inl e) f = Inl e"
| "bindE (Inr x) f = f x"

text \<open>A \<^verbatim>\<open>for ... of\<close> loop whose body pushes some coordinates or throws.\<close>

fun collectE :: "('a \<Rightarrow> error + 'b list) \<Rightarrow> 'a list \<Rightarrow> error + 'b list" where
  "collectE f [] = Inr []"
| "collectE f (x # xs) =
     bindE (f x) (\<lambda>ys. bindE (collectE f xs) (\<lambda>zs. Inr (ys @ zs)))"

section \<open>Coordinate and Board\<close>

fun inBounds :: "Coordinate \<Rightarrow> bool" where
  "inBounds (Coordinate c r) = (c \<ge> 0 \<and> c < 8 \<and> r \<ge> 0 \<and> r < 8)"

definition isEmpty :: "Board \<Rightarrow> Coordinate \<Rightarrow> error + bool" where
  "isEmpty board coordinate =
     (if inBounds coordinate
      then Inr (find (\<lambda>piece. position piece = coordinate) board = None)
      else Inl CoordinateOutOfBounds)"

definition getPieceAt :: "Board \<Rightarrow> Coordinate \<Rightarrow> error + Piece" where
  "getPieceAt board coordinate =
     (if inBounds coordinate
      then (case find (\<lambda>piece. position piece = coordinate) board of
              Some piece \<Rightarrow> Inr piece
            | None \<Rightarrow> Inl NoPieceInSpace)
      else Inl IllegalCoordinate)"

section \<open>Pawn.getOpenMoves\<close>

text \<open>
  The six blocks of \<^verbatim>\<open>Pawn.getOpenMoves\<close>, in source order; each yields the
  coordinates it pushes. The second block calls \<^verbatim>\<open>board.isEmpty(forward)\<close> and, only
  if that is true (\<^verbatim>\<open>&&\<close>), \<^verbatim>\<open>board.isEmpty(doubleForward)\<close>, neither behind an
  \<^verbatim>\<open>inBounds\<close> test.
\<close>

definition pawnForward :: "Board \<Rightarrow> Coordinate \<Rightarrow> error + Coordinate list" where
  "pawnForward board forward =
     (if inBounds forward
      then bindE (isEmpty board forward) (\<lambda>e. Inr (if e then [forward] else []))
      else Inr [])"

definition pawnDouble :: "Board \<Rightarrow> bool \<Rightarrow> Coordinate \<Rightarrow> Coordinate \<Rightarrow> error + Coordinate list" where
  "pawnDouble board fm forward doubleForward =
     (if fm
      then bindE (isEmpty board forward) (\<lambda>e1.
             if e1
             then bindE (isEmpty board doubleForward) (\<lambda>e2.
                    Inr (if e2 then [doubleForward] else []))
             else Inr [])
      else Inr [])"

definition pawnTake :: "Board \<Rightarrow> Color \<Rightarrow> Coordinate \<Rightarrow> error + Coordinate list" where
  "pawnTake board c diagonal =
     (if inBounds diagonal
      then bindE (isEmpty board diagonal) (\<lambda>e.
             if \<not> e
             then bindE (getPieceAt board diagonal) (\<lambda>q.
                    Inr (if c \<noteq> color q then [diagonal] else []))
             else Inr [])
      else Inr [])"

definition pawnEnPassant ::
  "Board \<Rightarrow> Color \<Rightarrow> Coordinate \<Rightarrow> Coordinate \<Rightarrow> error + Coordinate list" where
  "pawnEnPassant board c horizontal diagonal =
     (if inBounds horizontal
      then bindE (isEmpty board horizontal) (\<lambda>e.
             if \<not> e
             then bindE (getPieceAt board horizontal) (\<lambda>q.
                    Inr (if c \<noteq> color q \<and> isPawn q \<and> enPassant q then [diagonal] else []))
             else Inr [])
      else Inr [])"

definition pawnOpenMoves :: "Color \<Rightarrow> int \<Rightarrow> int \<Rightarrow> bool \<Rightarrow> Board \<Rightarrow> error + Coordinate list" where
  "pawnOpenMoves c x y fm board =
     (let dy = (if c = Black then 1 else - 1);
          forward = Coordinate x (y + dy);
          left = Coordinate (x - 1) (y + dy);
          right = Coordinate (x + 1) (y + dy);
          doubleForward = Coordinate x (y + 2 * dy);
          leftHorizontal = Coordinate (x - 1) y;
          rightHorizontal = Coordinate (x + 1) y
      in bindE (pawnForward board forward) (\<lambda>m1.
         bindE (pawnDouble board fm forward doubleForward) (\<lambda>m2.
         bindE (pawnTake board c left) (\<lambda>m3.
         bindE (pawnEnPassant board c leftHorizontal left) (\<lambda>m4.
         bindE (pawnTake board c right) (\<lambda>m5.
         bindE (pawnEnPassant board c rightHorizontal right) (\<lambda>m6.
         Inr (m1 @ m2 @ m3 @ m4 @ m5 @ m6))))))))"

section \<open>Sliding pieces, Knight, and the King's eight neighbours\<close>

text \<open>
  The \<^verbatim>\<open>while (newPosition.inBounds())\<close> loop of Bishop, Rook and Queen: it pushes
  vacant squares and advances by the direction, and leaves the loop (\<^verbatim>\<open>break\<close>) at the
  first occupied square. The result is the pushed squares and the final
  \<^verbatim>\<open>newPosition\<close>. The source runs it on the literal direction vectors only, all
  non-zero; with the null vector the source's loop would not advance, and the model leaves
  the loop at once.
\<close>

function slideWhile ::
  "Board \<Rightarrow> int \<Rightarrow> int \<Rightarrow> int \<Rightarrow> int \<Rightarrow> error + (Coordinate list \<times> Coordinate)" where
  "slideWhile board dc dr newColumn newRow =
     (if (dc \<noteq> 0 \<or> dr \<noteq> 0) \<and> inBounds (Coordinate newColumn newRow)
      then (case isEmpty board (Coordinate newColumn newRow) of
              Inl e \<Rightarrow> Inl e
            | Inr True \<Rightarrow>
                (case slideWhile board dc dr (newColumn + dc) (newRow + dr) of
                   Inl e \<Rightarrow> Inl e
                 | Inr (pushed, final) \<Rightarrow> Inr (Coordinate newColumn newRow # pushed, final))
            | Inr False \<Rightarrow> Inr ([], Coordinate newColumn newRow))
      else Inr ([], Coordinate newColumn newRow))"
  by pat_completeness auto
termination
  by (relation "measure (\<lambda>(board, dc, dr, c, r).
        if dc > 0 then nat (8 - c) else if dc < 0 then nat (c + 1)
        else if dr > 0 then nat (8 - r) else nat (r + 1))") auto

text \<open>One direction of the \<^verbatim>\<open>for (let direction of ...)\<close> loop: the slide, then the
  capture test on the square where the slide stopped.\<close>

definition slideDirection ::
  "Board \<Rightarrow> Color \<Rightarrow> int \<Rightarrow> int \<Rightarrow> int \<times> int \<Rightarrow> error + Coordinate list" where
  "slideDirection board c x y direction =
     bindE (slideWhile board (fst direction) (snd direction)
              (x + fst direction) (y + snd direction)) (\<lambda>(pushed, final).
       if inBounds final
       then bindE (getPieceAt board final) (\<lambda>q.
              Inr (if color q \<noteq> c then pushed @ [final] else pushed))
       else Inr pushed)"

definition diagonals :: "(int \<times> int) list" where
  "diagonals = [(1, 1), (1, - 1), (- 1, 1), (- 1, - 1)]"

definition orthogonals :: "(int \<times> int) list" where
  "orthogonals = [(1, 0), (- 1, 0), (0, 1), (0, - 1)]"

definition knightJumps :: "(int \<times> int) list" where
  "knightJumps = [(2, 1), (1, 2), (- 2, 1), (- 1, 2), (2, - 1), (1, - 2), (- 2, - 1), (- 1, - 2)]"

text \<open>One direction of the loop of \<^verbatim>\<open>Knight.getOpenMoves\<close> and of the first loop of
  \<^verbatim>\<open>King.getOpenMoves\<close>: the target square, unless it is off the board or holds a
  piece of the mover's colour.\<close>

definition stepDirection ::
  "Board \<Rightarrow> Color \<Rightarrow> int \<Rightarrow> int \<Rightarrow> int \<times> int \<Rightarrow> error + Coordinate list" where
  "stepDirection board c x y direction =
     (let newPosition = Coordinate (x + fst direction) (y + snd direction)
      in if inBounds newPosition
         then bindE (isEmpty board newPosition) (\<lambda>e.
                if \<not> e
                then bindE (getPieceAt board newPosition) (\<lambda>q.
                       Inr (if color q = c then [] else [newPosition]))
                else Inr [newPosition])
         else Inr [])"

definition kingSteps :: "Board \<Rightarrow> Color \<Rightarrow> int \<Rightarrow> int \<Rightarrow> error + Coordinate list" where
  "kingSteps board c x y = collectE (stepDirection board c x y) (diagonals @ orthogonals)"

text \<open>
  \<^verbatim>\<open>getOpenMoves(board, false)\<close>, the call made by \<^verbatim>\<open>inCheck\<close>. Only
  \<^verbatim>\<open>King.getOpenMoves\<close> reads its \<^verbatim>\<open>castle\<close> argument, and with \<^verbatim>\<open>false\<close>
  it skips the castling block, the only place that calls \<^verbatim>\<open>inCheck\<close>.
\<close>

fun getOpenMovesNoCastle :: "Piece \<Rightarrow> Board \<Rightarrow> error + Coordinate list" where
  "getOpenMovesNoCastle (Pawn c x y fm ep) board = pawnOpenMoves c x y fm board"
| "getOpenMovesNoCastle (Bishop c x y) board = collectE (slideDirection board c x y) diagonals"
| "getOpenMovesNoCastle (Rook c x y fm) board = collectE (slideDirection board c x y) orthogonals"
| "getOpenMovesNoCastle (Queen c x y) board =
     collectE (slideDirection board c x y) (diagonals @ orthogonals)"
| "getOpenMovesNoCastle (King c x y fm) board = kingSteps board c x y"
| "getOpenMovesNoCastle (Knight c x y) board = collectE (stepDirection board c x y) knightJumps"

section \<open>move\<close>

text \<open>The pawn rebuilt with \<^verbatim>\<open>enPassant = false\<close>; any other piece is pushed as it is.\<close>

fun clearEnPassant :: "Piece \<Rightarrow> Piece" where
  "clearEnPassant (Pawn c x y fm ep) = Pawn c x y fm False"
| "clearEnPassant (Bishop c x y) = Bishop c x y"
| "clearEnPassant (Rook c x y fm) = Rook c x y fm"
| "clearEnPassant (Queen c x y) = Queen c x y"
| "clearEnPassant (King c x y fm) = King c x y fm"
| "clearEnPassant (Knight c x y) = Knight c x y"

text \<open>The loop body shared by the \<^verbatim>\<open>move\<close> of Bishop, Rook, Queen and Knight: what
  one old piece contributes to \<^verbatim>\<open>newPieces\<close>.\<close>

definition keepPiece :: "Coordinate \<Rightarrow> Coordinate \<Rightarrow> Piece \<Rightarrow> Piece list" where
  "keepPiece newPosition thisPosition oldPiece =
     (if position oldPiece \<noteq> newPosition \<and> position oldPiece \<noteq> thisPosition
      then [clearEnPassant oldPiece] else [])"

text \<open>The loop body of \<^verbatim>\<open>Pawn.move\<close>, with its \<^verbatim>\<open>takesEnPassant\<close> test;
  \<^verbatim>\<open>vacant\<close> is \<^verbatim>\<open>board.isEmpty(newPosition)\<close>.\<close>

definition takesEnPassant :: "Color \<Rightarrow> bool \<Rightarrow> Coordinate \<Rightarrow> Piece \<Rightarrow> bool" where
  "takesEnPassant c vacant newPosition oldPiece =
     (vacant \<and> isPawn oldPiece \<and> enPassant oldPiece
      \<and> column (position oldPiece) = column newPosition
      \<and> ((c = White \<and> row (position oldPiece) = row newPosition + 1)
         \<or> (c = Black \<and> row (position oldPiece) = row newPosition - 1)))"

definition keepPiecePawn ::
  "Color \<Rightarrow> bool \<Rightarrow> Coordinate \<Rightarrow> Coordinate \<Rightarrow> Piece \<Rightarrow> Piece list" where
  "keepPiecePawn c vacant newPosition thisPosition oldPiece =
     (if position oldPiece \<noteq> newPosition \<and> position oldPiece \<noteq> thisPosition
      then (if \<not> takesEnPassant c vacant newPosition oldPiece
            then [clearEnPassant oldPiece] else [])
      else [])"

text \<open>
  The loop body of \<^verbatim>\<open>King.move\<close>. A Rook is pushed unchanged only in the last
  \<^verbatim>\<open>else\<close>; under \<^verbatim>\<open>queensideCastle\<close> (\<^verbatim>\<open>kingsideCastle\<close>) the rook on column
  0 (7) of the king's row is rebuilt on column 3 (5) with the constructor's default
  \<^verbatim>\<open>firstMove = true\<close>, and the source has no \<^verbatim>\<open>else\<close> for the other rooks.
\<close>

definition keepPieceKing ::
  "bool \<Rightarrow> bool \<Rightarrow> int \<Rightarrow> Coordinate \<Rightarrow> Coordinate \<Rightarrow> Piece \<Rightarrow> Piece list" where
  "keepPieceKing queensideCastle kingsideCastle thisRow newPosition thisPosition oldPiece =
     (if position oldPiece \<noteq> newPosition \<and> position oldPiece \<noteq> thisPosition
      then (if isPawn oldPiece then [clearEnPassant oldPiece]
            else if isRook oldPiece
            then (if queensideCastle
                  then (if position oldPiece = Coordinate 0 thisRow
                        then [Rook (color oldPiece) 3 thisRow True] else [])
                  else if kingsideCastle
                  then (if position oldPiece = Coordinate 7 thisRow
                        then [Rook (color oldPiece) 5 thisRow True] else [])
                  else [oldPiece])
            else [oldPiece])
      else [])"

text \<open>The piece pushed last by \<^verbatim>\<open>Pawn.move\<close>: the pawn with \<^verbatim>\<open>firstMove = false\<close>
  and the en-passant flag of a double step, or a Queen on the far rank.\<close>

definition pawnAdded :: "Color \<Rightarrow> int \<Rightarrow> Coordinate \<Rightarrow> Piece" where
  "pawnAdded c thisRow newPosition =
     (let ep = ((c = White \<and> thisRow = 6 \<and> row newPosition = 4)
               \<or> (c = Black \<and> thisRow = 1 \<and> row newPosition = 3))
      in if (c = White \<and> row newPosition = 0) \<or> (c = Black \<and> row newPosition = 7)
         then Queen c (column newPosition) (row newPosition)
         else Pawn c (column newPosition) (row newPosition) False ep)"

fun move :: "Piece \<Rightarrow> Coordinate \<Rightarrow> Board \<Rightarrow> error + Board" where
  "move (Pawn c x y fm ep) newPosition board =
     (if \<not> inBounds newPosition then Inl MovingPieceOutOfBounds
      else bindE (isEmpty board newPosition) (\<lambda>vacant.
             Inr (concat (map (keepPiecePawn c vacant newPosition (Coordinate x y)) board)
                  @ [pawnAdded c y newPosition])))"
| "move (Bishop c x y) newPosition board =
     (if \<not> inBounds newPosition then Inl MovingPieceOutOfBounds
      else Inr (concat (map (keepPiece newPosition (Coordinate x y)) board)
                @ [Bishop c (column newPosition) (row newPosition)]))"
| "move (Rook c x y fm) newPosition board =
     (if \<not> inBounds newPosition then Inl MovingPieceOutOfBounds
      else Inr (concat (map (keepPiece newPosition (Coordinate x y)) board)
                @ [Rook c (column newPosition) (row newPosition) False]))"
| "move (Queen c x y) newPosition board =
     (if \<not> inBounds newPosition then Inl MovingPieceOutOfBounds
      else Inr (concat (map (keepPiece newPosition (Coordinate x y)) board)
                @ [Queen c (column newPosition) (row newPosition)]))"
| "move (King c x y fm) newPosition board =
     (if \<not> inBounds newPosition then Inl MovingPieceOutOfBounds
      else (let queensideCastle = (fm \<and> newPosition = Coordinate 2 y);
                kingsideCastle = (fm \<and> newPosition = Coordinate 6 y)
            in Inr (concat (map (keepPieceKing queensideCastle kingsideCastle y
                                   newPosition (Coordinate x y)) board)
                    @ [King c (column newPosition) (row newPosition) False])))"
| "move (Knight c x y) newPosition board =
     (if \<not> inBounds newPosition then Inl MovingPieceOutOfBounds
      else Inr (concat (map (keepPiece newPosition (Coordinate x y)) board)
                @ [Knight c (column newPosition) (row newPosition)]))"

section \<open>inCheck\<close>

text \<open>The first loop of \<^verbatim>\<open>inCheck\<close>: the position of the last King of the colour in
  the array, if there is one.\<close>

fun findKing :: "Color \<Rightarrow> Piece list \<Rightarrow> Coordinate option \<Rightarrow> Coordinate option" where
  "findKing c [] kingPosition = kingPosition"
| "findKing c (piece # pieces) kingPosition =
     findKing c pieces
       (if isKing piece \<and> color piece = c then Some (position piece) else kingPosition)"

text \<open>The second loop: the opposing pieces in array order; the first one whose open moves
  hold the king's square makes the result true, and a throwing
  \<^verbatim>\<open>getOpenMoves\<close> ends the loop with that exception.\<close>

fun attacked :: "Board \<Rightarrow> Color \<Rightarrow> Coordinate \<Rightarrow> Piece list \<Rightarrow> error + bool" where
  "attacked board c kingPosition [] = Inr False"
| "attacked board c kingPosition (piece # pieces) =
     (if color piece \<noteq> c
      then bindE (getOpenMovesNoCastle piece board) (\<lambda>openMoves.
             if kingPosition \<in> set openMoves then Inr True
             else attacked board c kingPosition pieces)
      else attacked board c kingPosition pieces)"

definition inCheck :: "Color \<Rightarrow> Board \<Rightarrow> error + bool" where
  "inCheck c board =
     (case findKing c board None of
        None \<Rightarrow> Inl MustHaveAKing
      | Some kingPosition \<Rightarrow> attacked board c kingPosition board)"

section \<open>King.getOpenMoves with castling\<close>

text \<open>
  One round of the loop over the columns of the castling path: \<^verbatim>\<open>board.isEmpty\<close> on
  the square of that column in the king's row, then \<^verbatim>\<open>this.move\<close> to it and
  \<^verbatim>\<open>inCheck\<close> on the board moved to. Either test clears the flag; the loop has no
  \<^verbatim>\<open>break\<close>, so every column is visited.
\<close>

definition castleStep ::
  "Color \<Rightarrow> int \<Rightarrow> int \<Rightarrow> bool \<Rightarrow> Board \<Rightarrow> bool \<Rightarrow> int \<Rightarrow> error + bool" where
  "castleStep c x y fm board canCastle col =
     (let middlePosition = Coordinate col y
      in bindE (isEmpty board middlePosition) (\<lambda>e.
         bindE (move (King c x y fm) middlePosition board) (\<lambda>moved.
         bindE (inCheck c moved) (\<lambda>check.
         Inr (canCastle \<and> e \<and> \<not> check)))))"

fun castleLoop ::
  "Color \<Rightarrow> int \<Rightarrow> int \<Rightarrow> bool \<Rightarrow> Board \<Rightarrow> int list \<Rightarrow> bool \<Rightarrow> error + bool" where
  "castleLoop c x y fm board [] canCastle = Inr canCastle"
| "castleLoop c x y fm board (col # cols) canCastle =
     bindE (castleStep c x y fm board canCastle col) (castleLoop c x y fm board cols)"

text \<open>One side of the castling block: the corner must hold a piece, the first piece
  found there must be a Rook with \<^verbatim>\<open>firstMove\<close>; its colour is not looked at.\<close>

definition castleSide ::
  "Color \<Rightarrow> int \<Rightarrow> int \<Rightarrow> bool \<Rightarrow> Board \<Rightarrow> Coordinate \<Rightarrow> int list \<Rightarrow> Coordinate
     \<Rightarrow> error + Coordinate list" where
  "castleSide c x y fm board corner cols destination =
     bindE (isEmpty board corner) (\<lambda>e.
       if \<not> e
       then bindE (getPieceAt board corner) (\<lambda>q.
              if isRook q \<and> firstMove q
              then bindE (castleLoop c x y fm board cols True) (\<lambda>canCastle.
                     Inr (if canCastle then [destination] else []))
              else Inr [])
       else Inr [])"

definition kingCastles :: "Color \<Rightarrow> int \<Rightarrow> int \<Rightarrow> bool \<Rightarrow> Board \<Rightarrow> error + Coordinate list" where
  "kingCastles c x y fm board =
     (let cornerRow = (if c = Black then 0 else 7)
      in bindE (castleSide c x y fm board (Coordinate 0 cornerRow) [4, 3, 2] (Coordinate 2 y))
           (\<lambda>queenside.
         bindE (castleSide c x y fm board (Coordinate 7 cornerRow) [4, 5, 6] (Coordinate 6 y))
           (\<lambda>kingside.
         Inr (queenside @ kingside))))"

fun getOpenMoves :: "Piece \<Rightarrow> Board \<Rightarrow> bool \<Rightarrow> error + Coordinate list" where
  "getOpenMoves (Pawn c x y fm ep) board castle = pawnOpenMoves c x y fm board"
| "getOpenMoves (Bishop c x y) board castle = collectE (slideDirection board c x y) diagonals"
| "getOpenMoves (Rook c x y fm) board castle = collectE (slideDirection board c x y) orthogonals"
| "getOpenMoves (Queen c x y) board castle =
     collectE (slideDirection board c x y) (diagonals @ orthogonals)"
| "getOpenMoves (King c x y fm) board castle =
     bindE (kingSteps board c x y) (\<lambda>openMoves.
       if castle \<and> fm
       then bindE (kingCastles c x y fm board) (\<lambda>castles. Inr (openMoves @ castles))
       else Inr openMoves)"
| "getOpenMoves (Knight c x y) board castle = collectE (stepDirection board c x y) knightJumps"

section \<open>getAvailableMoves, inCheckmate, inStalemate\<close>

fun availableLoop :: "Piece \<Rightarrow> Board \<Rightarrow> Coordinate list \<Rightarrow> error + Coordinate list" where
  "availableLoop piece board [] = Inr []"
| "availableLoop piece board (openMove # openMoves) =
     bindE (move piece openMove board) (\<lambda>moved.
     bindE (inCheck (color piece) moved) (\<lambda>check.
     bindE (availableLoop piece board openMoves) (\<lambda>availableMoves.
     Inr (if \<not> check then openMove # availableMoves else availableMoves))))"

definition getAvailableMoves :: "Piece \<Rightarrow> Board \<Rightarrow> error + Coordinate list" where
  "getAvailableMoves piece board =
     bindE (getOpenMoves piece board True) (availableLoop piece board)"

text \<open>The loop shared by \<^verbatim>\<open>inCheckmate\<close> and \<^verbatim>\<open>inStalemate\<close>: false at the first
  piece of the colour that has an available move, true when the array is exhausted.\<close>

fun noAvailableMoves :: "Color \<Rightarrow> Board \<Rightarrow> Piece list \<Rightarrow> error + bool" where
  "noAvailableMoves c board [] = Inr True"
| "noAvailableMoves c board (piece # pieces) =
     (if color piece = c
      then bindE (getAvailableMoves piece board) (\<lambda>availableMoves.
             if length availableMoves \<noteq> 0 then Inr False
             else noAvailableMoves c board pieces)
      else noAvailableMoves c board pieces)"

definition inCheckmate :: "Color \<Rightarrow> Board \<Rightarrow> error + bool" where
  "inCheckmate c board =
     bindE (inCheck c board) (\<lambda>check.
       if check then noAvailableMoves c board board else Inr False)"

definition inStalemate :: "Color \<Rightarrow> Board \<Rightarrow> error + bool" where
  "inStalemate c board =
     bindE (inCheck c board) (\<lambda>check.
       if \<not> check then noAvailableMoves c board board else Inr False)"

section \<open>The rook's landing square of a castling move\<close>

text \<open>
  \<^verbatim>\<open>King.move\<close> treats as a castle every move of a king with \<^verbatim>\<open>firstMove\<close> to
  column 2 or 6 of its own row and rebuilds the corner rook on column 3 or 5. The predicate
  says that this landing square is free on the board moved from: it is the king's own
  square, or no piece stands on it. For every other move it is true.
\<close>

definition rookLandingFree :: "Piece \<Rightarrow> Coordinate \<Rightarrow> Board \<Rightarrow> bool" where
  "rookLandingFree piece newPosition board =
     (case piece of
        King c x y fm \<Rightarrow>
          (if fm \<and> newPosition = Coordinate 2 y
           then x = 3 \<or> find (\<lambda>q. position q = Coordinate 3 y) board = None
           else if fm \<and> newPosition = Coordinate 6 y
           then x = 5 \<or> find (\<lambda>q. position q = Coordinate 5 y) board = None
           else True)
      | _ \<Rightarrow> True)"

section \<open>The recursion between getOpenMoves and inCheck, with a call budget\<close>

text \<open>
  In the source \<^verbatim>\<open>King.getOpenMoves\<close> calls \<^verbatim>\<open>inCheck\<close>, and \<^verbatim>\<open>inCheck\<close> calls
  \<^verbatim>\<open>getOpenMoves\<close> of every opposing piece. The definitions above cut this cycle by
  giving \<^verbatim>\<open>getOpenMoves(board, false)\<close> a definition of its own. Here the cycle is
  written as it stands in the source: \<open>getOpenMovesF\<close> and \<open>inCheckF\<close> call each other,
  every such call spends one unit of a budget, and \<open>None\<close> is the answer of a call that
  finds the budget spent. A computation that recursed without bound would be \<open>None\<close> for
  every budget. The two loops that contain the calls take the callee as an argument.
\<close>

fun bindO :: "(error + 'a) option \<Rightarrow> ('a \<Rightarrow> (error + 'b) option) \<Rightarrow> (error + 'b) option" where
  "bindO None f = None"
| "bindO (Some (Inl e)) f = Some (Inl e)"
| "bindO (Some (Inr x)) f = f x"

fun castleLoopW ::
  "(Color \<Rightarrow> Board \<Rightarrow> (error + bool) option)
     \<Rightarrow> Color \<Rightarrow> int \<Rightarrow> int \<Rightarrow> bool \<Rightarrow> Board \<Rightarrow> int list \<Rightarrow> bool \<Rightarrow> (error + bool) option" where
  "castleLoopW inCheckCall c x y fm board [] canCastle = Some (Inr canCastle)"
| "castleLoopW inCheckCall c x y fm board (col # cols) canCastle =
     bindO (Some (isEmpty board (Coordinate col y))) (\<lambda>e.
     bindO (Some (move (King c x y fm) (Coordinate col y) board)) (\<lambda>moved.
     bindO (inCheckCall c moved) (\<lambda>check.
     castleLoopW inCheckCall c x y fm board cols (canCastle \<and> e \<and> \<not> check))))"

definition castleSideW ::
  "(Color \<Rightarrow> Board \<Rightarrow> (error + bool) option)
     \<Rightarrow> Color \<Rightarrow> int \<Rightarrow> int \<Rightarrow> bool \<Rightarrow> Board \<Rightarrow> Coordinate \<Rightarrow> int list \<Rightarrow> Coordinate
     \<Rightarrow> (error + Coordinate list) option" where
  "castleSideW inCheckCall c x y fm board corner cols destination =
     bindO (Some (isEmpty board corner)) (\<lambda>e.
       if \<not> e
       then bindO (Some (getPieceAt board corner)) (\<lambda>q.
              if isRook q \<and> firstMove q
              then bindO (castleLoopW inCheckCall c x y fm board cols True) (\<lambda>canCastle.
                     Some (Inr (if canCastle then [destination] else [])))
              else Some (Inr []))
       else Some (Inr []))"

fun attackedW ::
  "(Piece \<Rightarrow> Board \<Rightarrow> bool \<Rightarrow> (error + Coordinate list) option)
     \<Rightarrow> Board \<Rightarrow> Color \<Rightarrow> Coordinate \<Rightarrow> Piece list \<Rightarrow> (error + bool) option" where
  "attackedW getOpenMovesCall board c kingPosition [] = Some (Inr False)"
| "attackedW getOpenMovesCall board c kingPosition (piece # pieces) =
     (if color piece \<noteq> c
      then bindO (getOpenMovesCall piece board False) (\<lambda>openMoves.
             if kingPosition \<in> set openMoves then Some (Inr True)
             else attackedW getOpenMovesCall board c kingPosition pieces)
      else attackedW getOpenMovesCall board c kingPosition pieces)"

fun getOpenMovesF :: "nat \<Rightarrow> Piece \<Rightarrow> Board \<Rightarrow> bool \<Rightarrow> (error + Coordinate list) option"
and inCheckF :: "nat \<Rightarrow> Color \<Rightarrow> Board \<Rightarrow> (error + bool) option"
where
  "getOpenMovesF 0 piece board castle = None"
| "getOpenMovesF (Suc n) piece board castle =
     (case piece of
        King c x y fm \<Rightarrow>
          bindO (Some (kingSteps board c x y)) (\<lambda>openMoves.
            if castle \<and> fm
            then bindO (castleSideW (\<lambda>k b. inCheckF n k b) c x y fm board
                          (Coordinate 0 (if c = Black then 0 else 7))
                          [4, 3, 2] (Coordinate 2 y)) (\<lambda>queenside.
                 bindO (castleSideW (\<lambda>k b. inCheckF n k b) c x y fm board
                          (Coordinate 7 (if c = Black then 0 else 7))
                          [4, 5, 6] (Coordinate 6 y)) (\<lambda>kingside.
                 Some (Inr (openMoves @ queenside @ kingside))))
            else Some (Inr openMoves))
      | _ \<Rightarrow> Some (getOpenMovesNoCastle piece board))"
| "inCheckF 0 c board = None"
| "inCheckF (Suc n) c board =
     (case findKing c board None of
        None \<Rightarrow> Some (Inl MustHaveAKing)
      | Some kingPosition \<Rightarrow>
          attackedW (\<lambda>p b castle. getOpenMovesF n p b castle) board c kingPosition board)"

fun availableLoopF ::
  "nat \<Rightarrow> Piece \<Rightarrow> Board \<Rightarrow> Coordinate list \<Rightarrow> (error + Coordinate list) option" where
  "availableLoopF n piece board [] = Some (Inr [])"
| "availableLoopF n piece board (openMove # openMoves) =
     bindO (Some (move piece openMove board)) (\<lambda>moved.
     bindO (inCheckF n (color piece) moved) (\<lambda>check.
     bindO (availableLoopF n piece board openMoves) (\<lambda>availableMoves.
     Some (Inr (if \<not> check then openMove # availableMoves else availableMoves)))))"

definition getAvailableMovesF :: "nat \<Rightarrow> Piece \<Rightarrow> Board \<Rightarrow> (error + Coordinate list) option" where
  "getAvailableMovesF n piece board =
     bindO (getOpenMovesF n piece board True) (availableLoopF n piece board)"

fun noAvailableMovesF :: "nat \<Rightarrow> Color \<Rightarrow> Board \<Rightarrow> Piece list \<Rightarrow> (error + bool) option" where
  "noAvailableMovesF n c board [] = Some (Inr True)"
| "noAvailableMovesF n c board (piece # pieces) =
     (if color piece = c
      then bindO (getAvailableMovesF n piece board) (\<lambda>availableMoves.
             if length availableMoves \<noteq> 0 then Some (Inr False)
             else noAvailableMovesF n c board pieces)
      else noAvailableMovesF n c board pieces)"

definition inCheckmateF :: "nat \<Rightarrow> Color \<Rightarrow> Board \<Rightarrow> (error + bool) option" where
  "inCheckmateF n c board =
     bindO (inCheckF n c board) (\<lambda>check.
       if check then noAvailableMovesF n c board board else Some (Inr False))"

definition inStalemateF :: "nat \<Rightarrow> Color \<Rightarrow> Board \<Rightarrow> (error + bool) option" where
  "inStalemateF n c board =
     bindO (inCheckF n c board) (\<lambda>check.
       if \<not> check then noAvailableMovesF n c board board else Some (Inr False))"

declare getOpenMovesF.simps [simp del] inCheckF.simps [simp del]

section \<open>Board lookups\<close>

lemma isEmpty_outOfBounds:
  "\<not> inBounds coordinate \<Longrightarrow> isEmpty board coordinate = Inl CoordinateOutOfBounds"
  by (simp add: isEmpty_def)

lemma find_None_position:
  "(find (\<lambda>piece. position piece = coordinate) board = None)
     = (\<forall>piece \<in> set board. position piece \<noteq> coordinate)"
  by (auto simp: find_None_iff)

lemma getOpenMoves_False: "getOpenMoves piece board False = getOpenMovesNoCastle piece board"
  by (cases piece; cases "kingSteps board (color piece) (column (position piece)) (row (position piece))")
     simp_all

text \<open>
  Claim C7. \<^verbatim>\<open>Board.getPieceAt\<close> throws \<^verbatim>\<open>"Illegal coordinate"\<close> exactly when the
  coordinate is off the board, throws \<^verbatim>\<open>"No Piece In Space"\<close> exactly when the coordinate
  is on the board and no piece of the array has it as position, and returns a piece exactly
  when the coordinate is on the board and that piece is the first one of the array standing
  there.
\<close>

theorem getPieceAt_cases:
  "(getPieceAt board coordinate = Inl IllegalCoordinate \<longleftrightarrow> \<not> inBounds coordinate)
   \<and> (getPieceAt board coordinate = Inl NoPieceInSpace \<longleftrightarrow>
        inBounds coordinate \<and> (\<forall>piece \<in> set board. position piece \<noteq> coordinate))
   \<and> (getPieceAt board coordinate = Inr piece \<longleftrightarrow>
        inBounds coordinate
        \<and> (\<exists>i < length board. board ! i = piece \<and> position piece = coordinate
              \<and> (\<forall>j < i. position (board ! j) \<noteq> coordinate)))"
proof (intro conjI)
  show "getPieceAt board coordinate = Inl IllegalCoordinate \<longleftrightarrow> \<not> inBounds coordinate"
    by (simp add: getPieceAt_def split: option.splits)
  show "getPieceAt board coordinate = Inl NoPieceInSpace \<longleftrightarrow>
        inBounds coordinate \<and> (\<forall>piece \<in> set board. position piece \<noteq> coordinate)"
    by (simp add: getPieceAt_def find_None_position [symmetric] split: option.splits)
  show "getPieceAt board coordinate = Inr piece \<longleftrightarrow>
        inBounds coordinate
        \<and> (\<exists>i < length board. board ! i = piece \<and> position piece = coordinate
              \<and> (\<forall>j < i. position (board ! j) \<noteq> coordinate))"
  proof -
    have "getPieceAt board coordinate = Inr piece \<longleftrightarrow>
          inBounds coordinate \<and> find (\<lambda>piece. position piece = coordinate) board = Some piece"
      by (simp add: getPieceAt_def split: option.splits)
    then show ?thesis
      unfolding find_Some_iff by auto
  qed
qed

theorem getPieceAt_cases_witness:
  "getPieceAt [Pawn White 1 6 True False, Rook Black 0 0 True] (Coordinate 0 0)
     = Inr (Rook Black 0 0 True)
   \<and> getPieceAt [Pawn White 1 6 True False, Rook Black 0 0 True] (Coordinate 8 0)
     = Inl IllegalCoordinate
   \<and> getPieceAt [Pawn White 1 6 True False, Rook Black 0 0 True] (Coordinate 6 1)
     = Inl NoPieceInSpace"
  using getPieceAt_cases [of "[Pawn White 1 6 True False, Rook Black 0 0 True]" "Coordinate 8 0"]
        getPieceAt_cases [of "[Pawn White 1 6 True False, Rook Black 0 0 True]" "Coordinate 6 1"]
  by (simp add: getPieceAt_def)

section \<open>The unguarded double step of a pawn\<close>

text \<open>
  Claim C10. A Pawn with \<^verbatim>\<open>firstMove\<close> true whose square two ahead is off the board,
  with no piece on the square ahead of it, makes \<^verbatim>\<open>getOpenMoves\<close> throw
  \<^verbatim>\<open>"Coordinate out of bounds"\<close> instead of returning a list, whatever the \<^verbatim>\<open>castle\<close>
  argument: the double-step block calls \<^verbatim>\<open>Board.isEmpty\<close> on a coordinate off the board.
  Forward is row \<open>y - 1\<close> for White and \<open>y + 1\<close> for Black. The witness is the White Pawn
  built on row 1, alone on the board.
\<close>

theorem pawn_getOpenMoves_throws:
  assumes "\<not> inBounds (Coordinate x (y + 2 * (if c = Black then 1 else - 1)))"
    and "\<forall>piece \<in> set board. position piece \<noteq> Coordinate x (y + (if c = Black then 1 else - 1))"
  shows "getOpenMoves (Pawn c x y True ep) board castle = Inl CoordinateOutOfBounds"
proof -
  let ?forward = "Coordinate x (y + (if c = Black then 1 else - 1))"
  let ?double = "Coordinate x (y + 2 * (if c = Black then 1 else - 1))"
  have vacant: "find (\<lambda>piece. position piece = ?forward) board = None"
    using assms(2) by (simp add: find_None_iff)
  have double: "isEmpty board ?double = Inl CoordinateOutOfBounds"
    using assms(1) by (rule isEmpty_outOfBounds)
  have "pawnDouble board True ?forward ?double = Inl CoordinateOutOfBounds"
  proof (cases "inBounds ?forward")
    case True
    then have "isEmpty board ?forward = Inr True"
      using vacant by (simp add: isEmpty_def)
    then show ?thesis using double by (simp add: pawnDouble_def)
  next
    case False
    then show ?thesis by (simp add: pawnDouble_def isEmpty_outOfBounds)
  qed
  moreover have "\<exists>ms. pawnForward board ?forward = Inr ms"
    by (simp add: pawnForward_def isEmpty_def)
  ultimately show ?thesis
    by (auto simp: pawnOpenMoves_def Let_def)
qed

theorem pawn_getOpenMoves_throws_witness:
  "\<not> inBounds (Coordinate 1 (- 1))
   \<and> getOpenMoves (Pawn White 1 1 True False) [Pawn White 1 1 True False] True
       = Inl CoordinateOutOfBounds"
  using pawn_getOpenMoves_throws [of 1 1 White "[Pawn White 1 1 True False]" False True]
  by simp

section \<open>The legality filter and the game-end tests\<close>

lemma availableLoop_sound:
  "availableLoop piece board openMoves = Inr availableMoves \<Longrightarrow> m \<in> set availableMoves \<Longrightarrow>
     \<exists>moved. move piece m board = Inr moved \<and> inCheck (color piece) moved = Inr False"
proof (induction openMoves arbitrary: availableMoves)
  case Nil
  then show ?case by simp
next
  case (Cons openMove openMoves)
  from Cons.prems(1) obtain moved check rest where
    mv: "move piece openMove board = Inr moved"
    and chk: "inCheck (color piece) moved = Inr check"
    and rest: "availableLoop piece board openMoves = Inr rest"
    and res: "availableMoves = (if \<not> check then openMove # rest else rest)"
    by (cases "move piece openMove board";
        cases "inCheck (color piece) (projr (move piece openMove board))";
        cases "availableLoop piece board openMoves") auto
  show ?case
  proof (cases "m \<in> set rest")
    case True
    then show ?thesis using Cons.IH [OF rest] by simp
  next
    case False
    with Cons.prems(2) res have "m = openMove" "\<not> check"
      by (auto split: if_splits)
    then show ?thesis using mv chk by simp
  qed
qed

text \<open>
  Claim C3. Whenever \<^verbatim>\<open>getAvailableMoves(piece, board)\<close> returns, every destination
  \<open>m\<close> in the returned array is one for which \<^verbatim>\<open>piece.move(m, board)\<close> returns a board
  and \<^verbatim>\<open>inCheck(piece.color, ...)\<close> on that board returns false. A board on which a
  colour has no king makes \<^verbatim>\<open>inCheck\<close> throw, and then \<^verbatim>\<open>getAvailableMoves\<close> returns
  nothing, so the statement needs no assumption on the kings. The witness is a rook pinned
  on its king's file: of its thirteen open moves the six along the file are returned.
\<close>

theorem getAvailableMoves_not_inCheck:
  assumes "getAvailableMoves piece board = Inr availableMoves"
    and "m \<in> set availableMoves"
  shows "\<exists>moved. move piece m board = Inr moved \<and> inCheck (color piece) moved = Inr False"
proof -
  from assms(1) obtain openMoves where
    "availableLoop piece board openMoves = Inr availableMoves"
    by (cases "getOpenMoves piece board True") (auto simp: getAvailableMoves_def)
  then show ?thesis using assms(2) by (rule availableLoop_sound)
qed

theorem getAvailableMoves_not_inCheck_witness:
  "getAvailableMoves (Rook White 0 6 False)
     [King White 0 7 False, Rook White 0 6 False, King Black 7 0 False, Rook Black 0 0 False]
     = Inr [Coordinate 0 5, Coordinate 0 4, Coordinate 0 3, Coordinate 0 2, Coordinate 0 1,
            Coordinate 0 0]
   \<and> move (Rook White 0 6 False) (Coordinate 0 5)
        [King White 0 7 False, Rook White 0 6 False, King Black 7 0 False, Rook Black 0 0 False]
     = Inr [King White 0 7 False, King Black 7 0 False, Rook Black 0 0 False,
            Rook White 0 5 False]
   \<and> inCheck White [King White 0 7 False, King Black 7 0 False, Rook Black 0 0 False,
                     Rook White 0 5 False] = Inr False"
proof -
  let ?board = "[King White 0 7 False, Rook White 0 6 False, King Black 7 0 False,
                 Rook Black 0 0 False]"
  let ?moves = "[Coordinate 0 5, Coordinate 0 4, Coordinate 0 3, Coordinate 0 2, Coordinate 0 1,
                 Coordinate 0 0]"
  have available: "getAvailableMoves (Rook White 0 6 False) ?board = Inr ?moves"
    by code_simp
  have member: "Coordinate 0 5 \<in> set ?moves"
    by simp
  have moved: "move (Rook White 0 6 False) (Coordinate 0 5) ?board
     = Inr [King White 0 7 False, King Black 7 0 False, Rook Black 0 0 False,
            Rook White 0 5 False]"
    by code_simp
  from getAvailableMoves_not_inCheck [OF available member] obtain b where
    b: "move (Rook White 0 6 False) (Coordinate 0 5) ?board = Inr b"
    and check: "inCheck (color (Rook White 0 6 False)) b = Inr False"
    by blast
  from b have "b = [King White 0 7 False, King Black 7 0 False, Rook Black 0 0 False,
                   Rook White 0 5 False]"
    unfolding moved by simp
  with check have "inCheck White [King White 0 7 False, King Black 7 0 False,
                     Rook Black 0 0 False, Rook White 0 5 False] = Inr False"
    by simp
  with available moved show ?thesis
    by (intro conjI)
qed

text \<open>
  Claim C9. For every colour and every board, \<^verbatim>\<open>inCheckmate\<close> and \<^verbatim>\<open>inStalemate\<close>
  never both return true: the first returns true only after \<^verbatim>\<open>inCheck\<close> returned true,
  the second only after it returned false. The witness is the checkmate position of the
  repository's tests.
\<close>

theorem inCheckmate_inStalemate_exclusive:
  "\<not> (inCheckmate c board = Inr True \<and> inStalemate c board = Inr True)"
  by (cases "inCheck c board") (auto simp: inCheckmate_def inStalemate_def)

theorem inCheckmate_inStalemate_exclusive_witness:
  "inCheckmate Black
     [King Black 4 0 True, King White 5 7 True, Rook White 7 0 True, Queen White 6 1] = Inr True
   \<and> inStalemate Black
     [King Black 4 0 True, King White 5 7 True, Rook White 7 0 True, Queen White 6 1] \<noteq> Inr True"
proof -
  have "inCheckmate Black
     [King Black 4 0 True, King White 5 7 True, Rook White 7 0 True, Queen White 6 1] = Inr True"
    by code_simp
  with inCheckmate_inStalemate_exclusive
         [of Black "[King Black 4 0 True, King White 5 7 True, Rook White 7 0 True, Queen White 6 1]"]
  show ?thesis by simp
qed

section \<open>One piece per position\<close>

lemma position_clearEnPassant: "position (clearEnPassant q) = position q"
  by (cases q) simp_all

lemma distinct_positions_concat:
  assumes "distinct (map position board)"
    and "\<And>q q'. q \<in> set board \<Longrightarrow> q' \<in> set (f q) \<Longrightarrow>
           f q = [q'] \<and> position q \<noteq> B
           \<and> (position q' = position q \<or> (position q = A \<and> position q' = B))"
  shows "distinct (map position (concat (map f board)))"
  using assms
proof (induction board)
  case Nil
  then show ?case by simp
next
  case (Cons q board)
  have ih: "distinct (map position (concat (map f board)))"
    using Cons by simp
  have rest: "\<And>r'. r' \<in> set (concat (map f board)) \<Longrightarrow>
      \<exists>r \<in> set board. position r \<noteq> B \<and> (position r' = position r \<or> (position r = A \<and> position r' = B))"
    using Cons.prems(2) by fastforce
  show ?case
  proof (cases "f q")
    case Nil
    then show ?thesis using ih by simp
  next
    case (Cons q' qs)
    then have fq: "f q = [q']" and qB: "position q \<noteq> B"
      and q': "position q' = position q \<or> (position q = A \<and> position q' = B)"
      using Cons.prems(2) [of q q'] by simp_all
    have notin: "position q \<notin> position ` set board"
      using Cons.prems(1) by simp
    have "position q' \<notin> position ` set (concat (map f board))"
    proof
      assume "position q' \<in> position ` set (concat (map f board))"
      then obtain r' where r': "r' \<in> set (concat (map f board))" "position r' = position q'"
        by (metis imageE)
      from rest [OF r'(1)] obtain r where r: "r \<in> set board" "position r \<noteq> B"
        "position r' = position r \<or> (position r = A \<and> position r' = B)" by blast
      from r(1) notin have "position r \<noteq> position q" by (metis imageI)
      with q' qB r r'(2) show False by auto
    qed
    then show ?thesis using ih fq by simp
  qed
qed

lemma positions_concat_subset:
  assumes "\<And>q q'. q \<in> set board \<Longrightarrow> q' \<in> set (f q) \<Longrightarrow> position q' \<noteq> C"
  shows "C \<notin> position ` set (concat (map f board))"
  using assms by auto

lemma distinct_snoc_positions:
  "distinct (map position kept) \<Longrightarrow> position added \<notin> position ` set kept \<Longrightarrow>
     distinct (map position (kept @ [added]))"
  by simp

lemma keepPiece_distinct:
  assumes "distinct (map position board)"
  shows "distinct (map position (concat (map (keepPiece newPosition thisPosition) board)))"
  by (rule distinct_positions_concat [where A = newPosition and B = newPosition, OF assms])
     (auto simp: keepPiece_def position_clearEnPassant split: if_splits)

lemma keepPiece_avoids:
  "newPosition \<notin> position ` set (concat (map (keepPiece newPosition thisPosition) board))"
  by (rule positions_concat_subset) (auto simp: keepPiece_def position_clearEnPassant split: if_splits)

lemma keepPiecePawn_distinct:
  assumes "distinct (map position board)"
  shows "distinct (map position (concat (map (keepPiecePawn c e newPosition thisPosition) board)))"
  by (rule distinct_positions_concat [where A = newPosition and B = newPosition, OF assms])
     (auto simp: keepPiecePawn_def position_clearEnPassant split: if_splits)

lemma keepPiecePawn_avoids:
  "newPosition \<notin> position ` set (concat (map (keepPiecePawn c e newPosition thisPosition) board))"
  by (rule positions_concat_subset) (auto simp: keepPiecePawn_def position_clearEnPassant split: if_splits)

lemma position_pawnAdded: "position (pawnAdded c y newPosition) = newPosition"
  by (simp add: pawnAdded_def Let_def)

lemma keepPieceKing_avoids:
  "newPosition = Coordinate nx ny \<Longrightarrow> nx \<noteq> 3 \<or> \<not> qs \<Longrightarrow> nx \<noteq> 5 \<or> \<not> ks \<Longrightarrow> 
   newPosition \<notin> position ` set (concat (map (keepPieceKing qs ks y newPosition thisPosition) board))"
  by (rule positions_concat_subset)
     (auto simp: keepPieceKing_def position_clearEnPassant split: if_splits)

lemma keepPieceKing_distinct:
  assumes "distinct (map position board)"
    and "qs \<Longrightarrow> \<forall>q \<in> set board. position q = Coordinate 3 y \<longrightarrow> position q = thisPosition"
    and "\<not> qs \<Longrightarrow> ks \<Longrightarrow> \<forall>q \<in> set board. position q = Coordinate 5 y \<longrightarrow> position q = thisPosition"
  shows "distinct (map position (concat (map (keepPieceKing qs ks y newPosition thisPosition) board)))"
proof (cases qs)
  case True
  show ?thesis
    by (rule distinct_positions_concat [where A = "Coordinate 0 y" and B = "Coordinate 3 y", OF assms(1)])
       (use True assms(2) in
          \<open>auto simp: keepPieceKing_def position_clearEnPassant split: if_splits\<close>)
next
  case False
  show ?thesis
  proof (cases ks)
    case True
    show ?thesis
      by (rule distinct_positions_concat [where A = "Coordinate 7 y" and B = "Coordinate 5 y", OF assms(1)])
         (use True False assms(3) in
            \<open>auto simp: keepPieceKing_def position_clearEnPassant split: if_splits\<close>)
  next
    case ks: False
    show ?thesis
      by (rule distinct_positions_concat [where A = newPosition and B = newPosition, OF assms(1)])
         (use False ks in
            \<open>auto simp: keepPieceKing_def position_clearEnPassant split: if_splits\<close>)
  qed
qed

text \<open>
  Claim C6, as stated, fails: \<^verbatim>\<open>King.move\<close> of a king with \<^verbatim>\<open>firstMove\<close> to column
  2 of its row rebuilds the corner rook on column 3 whatever stands there. On the board
  below no two pieces share a position, the destination is on the board, and the board
  returned holds the rook and the bishop both on \<open>(3, 7)\<close>.
\<close>

theorem move_one_piece_per_position_counterexample:
  "inBounds (Coordinate 2 7)
   \<and> distinct (map position [King White 4 7 True, Rook White 0 7 True, Bishop White 3 7])
   \<and> move (King White 4 7 True) (Coordinate 2 7)
        [King White 4 7 True, Rook White 0 7 True, Bishop White 3 7]
      = Inr [Rook White 3 7 True, Bishop White 3 7, King White 2 7 False]
   \<and> \<not> distinct (map position [Rook White 3 7 True, Bishop White 3 7, King White 2 7 False])"
  by (simp add: keepPieceKing_def)

text \<open>
  Claim C6, amended. For every piece, every destination on the board and every board on
  which no two pieces share a position, \<^verbatim>\<open>move\<close> returns a board on which no two pieces
  share a position, provided that, when the piece is a King with \<^verbatim>\<open>firstMove\<close> moved to
  column 2 (column 6) of its own row, column 3 (column 5) of that row is the king's own
  square or holds no piece.
\<close>

theorem move_keeps_one_piece_per_position:
  assumes "inBounds newPosition"
    and "distinct (map position board)"
    and "rookLandingFree piece newPosition board"
  shows "\<exists>moved. move piece newPosition board = Inr moved \<and> distinct (map position moved)"
proof (cases piece)
  case (Pawn c x y fm ep)
  obtain e where "isEmpty board newPosition = Inr e"
    using assms(1) by (simp add: isEmpty_def)
  then show ?thesis
    using Pawn assms(1) keepPiecePawn_distinct [OF assms(2)] keepPiecePawn_avoids
    by (simp add: position_pawnAdded)
next
  case (Bishop c x y)
  then show ?thesis
    using assms(1) keepPiece_distinct [OF assms(2)] keepPiece_avoids by simp
next
  case (Rook c x y fm)
  then show ?thesis
    using assms(1) keepPiece_distinct [OF assms(2)] keepPiece_avoids by simp
next
  case (Queen c x y)
  then show ?thesis
    using assms(1) keepPiece_distinct [OF assms(2)] keepPiece_avoids by simp
next
  case (Knight c x y)
  then show ?thesis
    using assms(1) keepPiece_distinct [OF assms(2)] keepPiece_avoids by simp
next
  case (King c x y fm)
  let ?qs = "fm \<and> newPosition = Coordinate 2 y"
  let ?ks = "fm \<and> newPosition = Coordinate 6 y"
  let ?kept = "concat (map (keepPieceKing ?qs ?ks y newPosition (Coordinate x y)) board)"
  have q: "?qs \<Longrightarrow> \<forall>q \<in> set board. position q = Coordinate 3 y \<longrightarrow> position q = Coordinate x y"
    using assms(3) King by (auto simp: rookLandingFree_def find_None_iff)
  have k: "\<not> ?qs \<Longrightarrow> ?ks \<Longrightarrow> \<forall>q \<in> set board. position q = Coordinate 5 y \<longrightarrow> position q = Coordinate x y"
    using assms(3) King by (auto simp: rookLandingFree_def find_None_iff)
  have d: "distinct (map position ?kept)"
    using assms(2) q k by (rule keepPieceKing_distinct)
  have a: "newPosition \<notin> position ` set ?kept"
    by (rule keepPieceKing_avoids [of _ "column newPosition" "row newPosition"]) auto
  show ?thesis
    using King assms(1) d a by (simp add: Let_def)
qed

theorem move_keeps_one_piece_per_position_witness:
  "inBounds (Coordinate 2 7)
   \<and> distinct (map position [King White 4 7 True, Rook White 0 7 True, King Black 4 0 True])
   \<and> rookLandingFree (King White 4 7 True) (Coordinate 2 7)
        [King White 4 7 True, Rook White 0 7 True, King Black 4 0 True]
   \<and> move (King White 4 7 True) (Coordinate 2 7)
        [King White 4 7 True, Rook White 0 7 True, King Black 4 0 True]
      = Inr [Rook White 3 7 True, King Black 4 0 True, King White 2 7 False]
   \<and> distinct (map position [Rook White 3 7 True, King Black 4 0 True, King White 2 7 False])"
proof -
  let ?board = "[King White 4 7 True, Rook White 0 7 True, King Black 4 0 True]"
  have bounds: "inBounds (Coordinate 2 7)"
    by simp
  have one: "distinct (map position ?board)"
    by simp
  have free: "rookLandingFree (King White 4 7 True) (Coordinate 2 7) ?board"
    by (simp add: rookLandingFree_def)
  have moved: "move (King White 4 7 True) (Coordinate 2 7) ?board
      = Inr [Rook White 3 7 True, King Black 4 0 True, King White 2 7 False]"
    by (simp add: keepPieceKing_def)
  from move_keeps_one_piece_per_position [OF bounds one free] obtain b where
    b: "move (King White 4 7 True) (Coordinate 2 7) ?board = Inr b"
    and d: "distinct (map position b)"
    by blast
  from b have "b = [Rook White 3 7 True, King Black 4 0 True, King White 2 7 False]"
    unfolding moved by simp
  with d have "distinct (map position
      [Rook White 3 7 True, King Black 4 0 True, King White 2 7 False])"
    by simp
  with bounds one free moved show ?thesis
    by (intro conjI)
qed

section \<open>Castling\<close>

lemma collectE_member:
  "collectE f xs = Inr ms \<Longrightarrow> m \<in> set ms \<Longrightarrow> \<exists>x \<in> set xs. \<exists>ys. f x = Inr ys \<and> m \<in> set ys"
proof (induction xs arbitrary: ms)
  case Nil
  then show ?case by simp
next
  case (Cons x xs)
  from Cons.prems(1) obtain ys zs where
    ys: "f x = Inr ys" and zs: "collectE f xs = Inr zs" and ms: "ms = ys @ zs"
    by (cases "f x"; cases "collectE f xs") auto
  show ?case
  proof (cases "m \<in> set ys")
    case True
    then show ?thesis using ys by auto
  next
    case False
    then have "m \<in> set zs" using Cons.prems(2) ms by simp
    from Cons.IH [OF zs this] show ?thesis by auto
  qed
qed

lemma stepDirection_member:
  "stepDirection board c x y d = Inr ms \<Longrightarrow> m \<in> set ms \<Longrightarrow>
     m = Coordinate (x + fst d) (y + snd d)"
  by (auto simp: stepDirection_def Let_def isEmpty_def getPieceAt_def
           split: if_splits option.splits)

lemma kingSteps_column:
  assumes "kingSteps board c x y = Inr ms" and "m \<in> set ms"
  shows "x - 1 \<le> column m \<and> column m \<le> x + 1"
proof -
  from collectE_member [OF assms [unfolded kingSteps_def]] obtain d ys where
    d: "d \<in> set (diagonals @ orthogonals)" and ys: "stepDirection board c x y d = Inr ys" "m \<in> set ys"
    by blast
  from stepDirection_member [OF ys] have "column m = x + fst d" by simp
  moreover from d have "- 1 \<le> fst d \<and> fst d \<le> 1"
    by (auto simp: diagonals_def orthogonals_def)
  ultimately show ?thesis by simp
qed

lemma castleStep_False:
  "castleStep c x y fm board False col = Inr r \<Longrightarrow> r = False"
  by (cases "isEmpty board (Coordinate col y)";
      cases "move (King c x y fm) (Coordinate col y) board";
      cases "inCheck c (projr (move (King c x y fm) (Coordinate col y) board))")
     (simp_all add: castleStep_def del: move.simps)

lemma castleLoop_False: "castleLoop c x y fm board cols False \<noteq> Inr True"
proof (induction cols)
  case Nil
  then show ?case by simp
next
  case (Cons col cols)
  show ?case
  proof (cases "castleStep c x y fm board False col")
    case (Inl e)
    then show ?thesis by simp
  next
    case (Inr r)
    then show ?thesis using castleStep_False [OF Inr] Cons.IH by simp
  qed
qed

lemma castleStep_occupied:
  assumes "find (\<lambda>q. position q = Coordinate col y) board \<noteq> None"
    and "castleStep c x y fm board canCastle col = Inr r"
  shows "r = False"
  using assms
  by (cases "inBounds (Coordinate col y)";
      cases "move (King c x y fm) (Coordinate col y) board";
      cases "inCheck c (projr (move (King c x y fm) (Coordinate col y) board))")
     (simp_all add: castleStep_def isEmpty_def del: move.simps inBounds.simps)

lemma castleLoop_occupied:
  assumes "find (\<lambda>q. position q = Coordinate col y) board \<noteq> None"
  shows "castleLoop c x y fm board (col # cols) canCastle \<noteq> Inr True"
proof (cases "castleStep c x y fm board canCastle col")
  case (Inl e)
  then show ?thesis by simp
next
  case (Inr r)
  then show ?thesis
    using castleStep_occupied [OF assms Inr] castleLoop_False by simp
qed

lemma castleSide_occupied:
  assumes "find (\<lambda>q. position q = Coordinate col y) board \<noteq> None"
    and "castleSide c x y fm board corner (col # cols) destination = Inr ms"
  shows "ms = []"
proof -
  have loop: "castleLoop c x y fm board (col # cols) True \<noteq> Inr True"
    using assms(1) by (rule castleLoop_occupied)
  show ?thesis
  proof (cases "castleLoop c x y fm board (col # cols) True")
    case (Inl e)
    with assms(2) show ?thesis
      by (cases "isEmpty board corner"; cases "getPieceAt board corner")
         (auto simp: castleSide_def simp del: castleLoop.simps split: if_splits)
  next
    case (Inr r)
    with loop have "r = False" by simp
    with Inr assms(2) show ?thesis
      by (cases "isEmpty board corner"; cases "getPieceAt board corner")
         (auto simp: castleSide_def simp del: castleLoop.simps split: if_splits)
  qed
qed

text \<open>
  Claim C1 says that a King with \<^verbatim>\<open>firstMove\<close> is offered column 2 (column 6) of its row
  exactly when an unmoved rook stands on the corner, the squares between are empty and the
  king passes through no check. The code does not do that: the loop over the castling path
  starts at column 4 and calls \<^verbatim>\<open>board.isEmpty\<close> there, and on a board that holds the
  king itself on column 4 (its home square, where the game starts it) that square is never
  empty. So for every such king and board, whenever \<^verbatim>\<open>getOpenMoves(board, true)\<close>
  returns, neither castling destination is in the result. The witness is the queenside
  castling position with nothing between king and rook and no opposing piece but the king.
\<close>

theorem king_on_column_4_never_castles:
  assumes "King c 4 y True \<in> set board"
    and "getOpenMoves (King c 4 y True) board True = Inr openMoves"
  shows "Coordinate 2 y \<notin> set openMoves \<and> Coordinate 6 y \<notin> set openMoves"
proof -
  have occ: "find (\<lambda>q. position q = Coordinate 4 y) board \<noteq> None"
  proof
    assume "find (\<lambda>q. position q = Coordinate 4 y) board = None"
    then have "\<forall>q \<in> set board. position q \<noteq> Coordinate 4 y"
      by (auto simp: find_None_iff)
    with assms(1) have "position (King c 4 y True) \<noteq> Coordinate 4 y"
      by blast
    then show False by simp
  qed
  from assms(2) obtain steps castles where
    steps: "kingSteps board c 4 y = Inr steps"
    and castles: "kingCastles c 4 y True board = Inr castles"
    and om: "openMoves = steps @ castles"
    by (cases "kingSteps board c 4 y"; cases "kingCastles c 4 y True board") auto
  from castles obtain qs ks where
    qs: "castleSide c 4 y True board (Coordinate 0 (if c = Black then 0 else 7)) [4, 3, 2] (Coordinate 2 y) = Inr qs"
    and ks: "castleSide c 4 y True board (Coordinate 7 (if c = Black then 0 else 7)) [4, 5, 6] (Coordinate 6 y) = Inr ks"
    and cs: "castles = qs @ ks"
    by (cases "castleSide c 4 y True board (Coordinate 0 (if c = Black then 0 else 7)) [4, 3, 2] (Coordinate 2 y)";
        cases "castleSide c 4 y True board (Coordinate 7 (if c = Black then 0 else 7)) [4, 5, 6] (Coordinate 6 y)")
       (auto simp: kingCastles_def Let_def)
  have "castles = []"
    using castleSide_occupied [OF occ qs] castleSide_occupied [OF occ ks] cs by simp
  moreover have "\<And>m. m \<in> set steps \<Longrightarrow> 3 \<le> column m \<and> column m \<le> 5"
    using kingSteps_column [OF steps] by force
  ultimately show ?thesis using om by force
qed

theorem king_on_column_4_never_castles_witness:
  "King White 4 7 True \<in> set [King White 4 7 True, Rook White 0 7 True, King Black 4 0 True]
   \<and> getPieceAt [King White 4 7 True, Rook White 0 7 True, King Black 4 0 True] (Coordinate 0 7)
        = Inr (Rook White 0 7 True)
   \<and> isEmpty [King White 4 7 True, Rook White 0 7 True, King Black 4 0 True] (Coordinate 1 7)
        = Inr True
   \<and> isEmpty [King White 4 7 True, Rook White 0 7 True, King Black 4 0 True] (Coordinate 2 7)
        = Inr True
   \<and> isEmpty [King White 4 7 True, Rook White 0 7 True, King Black 4 0 True] (Coordinate 3 7)
        = Inr True
   \<and> inCheck White [King White 4 7 True, Rook White 0 7 True, King Black 4 0 True] = Inr False
   \<and> inCheck White [Rook White 0 7 True, King Black 4 0 True, King White 3 7 False] = Inr False
   \<and> inCheck White [Rook White 3 7 True, King Black 4 0 True, King White 2 7 False] = Inr False
   \<and> getOpenMoves (King White 4 7 True)
        [King White 4 7 True, Rook White 0 7 True, King Black 4 0 True] True
        = Inr [Coordinate 5 6, Coordinate 3 6, Coordinate 5 7, Coordinate 3 7, Coordinate 4 6]
   \<and> Coordinate 2 7
        \<notin> set [Coordinate 5 6, Coordinate 3 6, Coordinate 5 7, Coordinate 3 7, Coordinate 4 6]"
proof -
  let ?board = "[King White 4 7 True, Rook White 0 7 True, King Black 4 0 True]"
  let ?moves = "[Coordinate 5 6, Coordinate 3 6, Coordinate 5 7, Coordinate 3 7, Coordinate 4 6]"
  have onBoard: "King White 4 7 True \<in> set ?board"
    by simp
  have moves: "getOpenMoves (King White 4 7 True) ?board True = Inr ?moves"
    by code_simp
  have rook: "getPieceAt ?board (Coordinate 0 7) = Inr (Rook White 0 7 True)"
    by code_simp
  have e1: "isEmpty ?board (Coordinate 1 7) = Inr True"
    by code_simp
  have e2: "isEmpty ?board (Coordinate 2 7) = Inr True"
    by code_simp
  have e3: "isEmpty ?board (Coordinate 3 7) = Inr True"
    by code_simp
  have c4: "inCheck White ?board = Inr False"
    by code_simp
  have c3: "inCheck White [Rook White 0 7 True, King Black 4 0 True, King White 3 7 False]
              = Inr False"
    by code_simp
  have c2: "inCheck White [Rook White 3 7 True, King Black 4 0 True, King White 2 7 False]
              = Inr False"
    by code_simp
  from king_on_column_4_never_castles [OF onBoard moves]
  have "Coordinate 2 7 \<notin> set ?moves"
    by (rule conjunct1)
  with onBoard rook e1 e2 e3 c4 c3 c2 moves show ?thesis
    by (intro conjI)
qed

lemma keepPieceKing_castle_rooks:
  assumes "q \<in> set (keepPieceKing qs ks y newPosition thisPosition oldPiece)" and "isRook q"
    and "qs \<or> ks"
  shows "position q = Coordinate (if qs then 3 else 5) y"
  using assms by (cases oldPiece) (auto simp: keepPieceKing_def split: if_splits)

text \<open>
  Claim C2 says that \<^verbatim>\<open>move\<close> leaves every piece it does not name unchanged on the
  board. \<^verbatim>\<open>King.move\<close> does not: in its loop a Rook is pushed only in the branch for
  the corner rook under \<^verbatim>\<open>queensideCastle\<close> or \<^verbatim>\<open>kingsideCastle\<close>, and in the last
  \<^verbatim>\<open>else\<close>; under either castle flag every other rook, of either colour, is pushed
  nowhere. So after a king with \<^verbatim>\<open>firstMove\<close> has moved to column 2 (column 6) of its
  row, every rook of the board returned stands on column 3 (column 5) of that row. The
  witness castles queenside on a board with the kingside rook and a black rook: both are
  gone from the result.
\<close>

theorem castling_drops_other_rooks:
  assumes "newPosition = Coordinate 2 y \<or> newPosition = Coordinate 6 y"
    and "move (King c x y True) newPosition board = Inr moved"
    and "q \<in> set moved" and "isRook q"
  shows "position q = Coordinate (if newPosition = Coordinate 2 y then 3 else 5) y"
proof -
  let ?qs = "newPosition = Coordinate 2 y"
  let ?ks = "newPosition = Coordinate 6 y"
  from assms(2) have moved:
    "moved = concat (map (keepPieceKing ?qs ?ks y newPosition (Coordinate x y)) board)
             @ [King c (column newPosition) (row newPosition) False]"
    by (simp add: Let_def split: if_splits)
  with assms(3,4) obtain oldPiece where
    "q \<in> set (keepPieceKing ?qs ?ks y newPosition (Coordinate x y) oldPiece)"
    by auto
  from keepPieceKing_castle_rooks [OF this assms(4)] assms(1) show ?thesis by simp
qed

theorem castling_drops_other_rooks_witness:
  "move (King White 4 7 True) (Coordinate 2 7)
     [King White 4 7 True, Rook White 0 7 True, Rook White 7 7 True, King Black 4 0 True,
      Rook Black 0 0 True]
     = Inr [Rook White 3 7 True, King Black 4 0 True, King White 2 7 False]
   \<and> isRook (Rook White 3 7 True)
   \<and> position (Rook White 3 7 True) = Coordinate 3 7"
proof -
  let ?board = "[King White 4 7 True, Rook White 0 7 True, Rook White 7 7 True,
                 King Black 4 0 True, Rook Black 0 0 True]"
  let ?moved = "[Rook White 3 7 True, King Black 4 0 True, King White 2 7 False]"
  have side: "Coordinate 2 7 = Coordinate 2 7 \<or> Coordinate 2 7 = Coordinate 6 7"
    by simp
  have moved: "move (King White 4 7 True) (Coordinate 2 7) ?board = Inr ?moved"
    by code_simp
  have member: "Rook White 3 7 True \<in> set ?moved"
    by simp
  have rook: "isRook (Rook White 3 7 True)"
    by simp
  from castling_drops_other_rooks [OF side moved member rook]
  have "position (Rook White 3 7 True) = Coordinate 3 7"
    by simp
  with moved rook show ?thesis
    by (intro conjI)
qed

section \<open>Two positions evaluated\<close>

text \<open>
  Claim C4 says that on the board of the repository's stalemate test, built as the test
  builds it (\<^verbatim>\<open>new King("Black", 5, 0)\<close>, so \<^verbatim>\<open>firstMove\<close> is the default true),
  \<^verbatim>\<open>inStalemate("Black", board)\<close> is true and \<^verbatim>\<open>inCheckmate("Black", board)\<close> is false.
  The code returns false for both. The Black King's open move to \<open>(6, 0)\<close> is column 6 of
  its row, \<^verbatim>\<open>King.move\<close> takes it for a kingside castle and pushes neither white rook,
  and on the board without the rooks the king on \<open>(6, 0)\<close> is not attacked: the move is
  available. With \<^verbatim>\<open>firstMove\<close> false for the Black King the same board is a stalemate.
\<close>

theorem stalemate_scenario_evaluated:
  "getAvailableMoves (King Black 5 0 True)
     [King Black 5 0 True, King White 5 7 True, Rook White 7 1 True, Queen White 4 5,
      Rook White 6 3 True] = Inr [Coordinate 6 0]
   \<and> move (King Black 5 0 True) (Coordinate 6 0)
     [King Black 5 0 True, King White 5 7 True, Rook White 7 1 True, Queen White 4 5,
      Rook White 6 3 True] = Inr [King White 5 7 True, Queen White 4 5, King Black 6 0 False]
   \<and> inStalemate Black
     [King Black 5 0 True, King White 5 7 True, Rook White 7 1 True, Queen White 4 5,
      Rook White 6 3 True] = Inr False
   \<and> inCheckmate Black
     [King Black 5 0 True, King White 5 7 True, Rook White 7 1 True, Queen White 4 5,
      Rook White 6 3 True] = Inr False
   \<and> inStalemate Black
     [King Black 5 0 False, King White 5 7 True, Rook White 7 1 True, Queen White 4 5,
      Rook White 6 3 True] = Inr True"
  by (intro conjI; code_simp)

text \<open>
  Claim C5 says that on a board with a king of the colour \<^verbatim>\<open>inCheck\<close> returns true
  exactly when some opposing piece has the king's square among its
  \<^verbatim>\<open>getOpenMoves(board, false)\<close>. On the board below White has a king on \<open>(4, 7)\<close>
  and the Black Rook on \<open>(4, 0)\<close> has that square among its open moves, but the Black Pawn
  built on row 6 with the default \<^verbatim>\<open>firstMove\<close> comes first in the array, its
  \<^verbatim>\<open>getOpenMoves\<close> throws \<^verbatim>\<open>"Coordinate out of bounds"\<close>, and so does \<^verbatim>\<open>inCheck\<close>.
\<close>

theorem inCheck_scenario_evaluated:
  "findKing White [King White 4 7 True, Pawn Black 0 6 True False, Rook Black 4 0 True] None
     = Some (Coordinate 4 7)
   \<and> getOpenMoves (Pawn Black 0 6 True False)
        [King White 4 7 True, Pawn Black 0 6 True False, Rook Black 4 0 True] False
     = Inl CoordinateOutOfBounds
   \<and> getOpenMoves (Rook Black 4 0 True)
        [King White 4 7 True, Pawn Black 0 6 True False, Rook Black 4 0 True] False
     = Inr [Coordinate 5 0, Coordinate 6 0, Coordinate 7 0, Coordinate 3 0, Coordinate 2 0,
            Coordinate 1 0, Coordinate 0 0, Coordinate 4 1, Coordinate 4 2, Coordinate 4 3,
            Coordinate 4 4, Coordinate 4 5, Coordinate 4 6, Coordinate 4 7]
   \<and> inCheck White [King White 4 7 True, Pawn Black 0 6 True False, Rook Black 4 0 True]
     = Inl CoordinateOutOfBounds"
  by (intro conjI; code_simp)

section \<open>Termination of the recursion between getOpenMoves and inCheck\<close>

lemma if_Some:
  "(b \<Longrightarrow> u = Some u') \<Longrightarrow> (\<not> b \<Longrightarrow> v = Some v') \<Longrightarrow>
     (if b then u else v) = Some (if b then u' else v')"
  by simp

lemma bindO_Some_bindE:
  "(\<And>x. g x = Some (f x)) \<Longrightarrow> bindO (Some m) g = Some (bindE m f)"
  by (cases m) simp_all

lemma bindO_bindE:
  "m' = Some m \<Longrightarrow> (\<And>x. g x = Some (f x)) \<Longrightarrow> bindO m' g = Some (bindE m f)"
  by (cases m) simp_all

lemma bindE_Inr: "bindE m Inr = m"
  by (cases m) simp_all

lemma bindE_assoc: "bindE (bindE m f) g = bindE m (\<lambda>x. bindE (f x) g)"
  by (cases m) simp_all

lemma getOpenMovesF_False:
  "getOpenMovesF (Suc n) piece board False = Some (getOpenMovesNoCastle piece board)"
proof (cases piece)
  case (King c x y fm)
  have "bindO (Some (kingSteps board c x y)) (\<lambda>openMoves. Some (Inr openMoves))
          = Some (bindE (kingSteps board c x y) Inr)"
    by (rule bindO_Some_bindE) simp
  then show ?thesis using King by (simp add: getOpenMovesF.simps bindE_Inr)
qed (simp_all add: getOpenMovesF.simps)

lemma attackedW_eq:
  "attackedW (\<lambda>p b castle. getOpenMovesF (Suc n) p b castle) board c kingPosition pieces
     = Some (attacked board c kingPosition pieces)"
proof (induction pieces)
  case Nil
  then show ?case by simp
next
  case (Cons piece pieces)
  show ?case
  proof (cases "color piece \<noteq> c")
    case True
    have "bindO (getOpenMovesF (Suc n) piece board False) (\<lambda>openMoves.
             if kingPosition \<in> set openMoves then Some (Inr True)
             else attackedW (\<lambda>p b castle. getOpenMovesF (Suc n) p b castle) board c kingPosition pieces)
          = Some (bindE (getOpenMovesNoCastle piece board) (\<lambda>openMoves.
             if kingPosition \<in> set openMoves then Inr True
             else attacked board c kingPosition pieces))"
      by (intro bindO_bindE getOpenMovesF_False if_Some Cons.IH refl)
    then show ?thesis using True by simp
  next
    case False
    then show ?thesis by (simp add: Cons.IH)
  qed
qed

lemma inCheckF_eq: "inCheckF (Suc (Suc n)) c board = Some (inCheck c board)"
  by (simp add: inCheckF.simps inCheck_def attackedW_eq split: option.splits)

lemma castleLoopW_eq:
  "castleLoopW (\<lambda>k b. inCheckF (Suc (Suc n)) k b) c x y fm board cols canCastle
     = Some (castleLoop c x y fm board cols canCastle)"
proof (induction cols arbitrary: canCastle)
  case Nil
  then show ?case by simp
next
  case (Cons col cols)
  have "castleLoopW (\<lambda>k b. inCheckF (Suc (Suc n)) k b) c x y fm board (col # cols) canCastle
        = Some (bindE (isEmpty board (Coordinate col y)) (\<lambda>e.
            bindE (move (King c x y fm) (Coordinate col y) board) (\<lambda>moved.
            bindE (inCheck c moved) (\<lambda>check.
            castleLoop c x y fm board cols (canCastle \<and> e \<and> \<not> check)))))"
    unfolding castleLoopW.simps
    by (intro bindO_Some_bindE bindO_bindE inCheckF_eq Cons.IH)
  also have "\<dots> = Some (castleLoop c x y fm board (col # cols) canCastle)"
    by (cases "isEmpty board (Coordinate col y)";
        cases "move (King c x y fm) (Coordinate col y) board";
        cases "inCheck c (projr (move (King c x y fm) (Coordinate col y) board))")
       (simp_all add: castleStep_def del: move.simps)
  finally show ?case .
qed

lemma castleSideW_eq:
  "castleSideW (\<lambda>k b. inCheckF (Suc (Suc n)) k b) c x y fm board corner cols destination
     = Some (castleSide c x y fm board corner cols destination)"
  unfolding castleSideW_def castleSide_def
  by (intro bindO_Some_bindE bindO_bindE if_Some castleLoopW_eq refl)


lemma getOpenMovesF_eq:
  "getOpenMovesF (Suc (Suc (Suc n))) piece board castle = Some (getOpenMoves piece board castle)"
proof (cases piece)
  case (King c x y fm)
  have "getOpenMovesF (Suc (Suc (Suc n))) (King c x y fm) board castle
        = Some (bindE (kingSteps board c x y) (\<lambda>openMoves.
            if castle \<and> fm
            then bindE (castleSide c x y fm board (Coordinate 0 (if c = Black then 0 else 7))
                          [4, 3, 2] (Coordinate 2 y)) (\<lambda>queenside.
                 bindE (castleSide c x y fm board (Coordinate 7 (if c = Black then 0 else 7))
                          [4, 5, 6] (Coordinate 6 y)) (\<lambda>kingside.
                 Inr (openMoves @ queenside @ kingside)))
            else Inr openMoves))"
    unfolding getOpenMovesF.simps Piece.case
    by (intro bindO_Some_bindE bindO_bindE if_Some castleSideW_eq refl)
  also have "\<dots> = Some (getOpenMoves (King c x y fm) board castle)"
    by (simp add: kingCastles_def Let_def bindE_assoc cong: if_cong)
  finally show ?thesis using King by simp
qed (simp_all add: getOpenMovesF.simps)

lemma availableLoopF_eq:
  "availableLoopF (Suc (Suc n)) piece board openMoves = Some (availableLoop piece board openMoves)"
proof (induction openMoves)
  case Nil
  then show ?case by simp
next
  case (Cons openMove openMoves)
  show ?case
    unfolding availableLoopF.simps availableLoop.simps
    by (intro bindO_Some_bindE bindO_bindE inCheckF_eq Cons.IH refl)
qed

lemma getAvailableMovesF_eq:
  "getAvailableMovesF (Suc (Suc (Suc n))) piece board = Some (getAvailableMoves piece board)"
  unfolding getAvailableMovesF_def getAvailableMoves_def
  by (intro bindO_bindE getOpenMovesF_eq availableLoopF_eq)

lemma noAvailableMovesF_eq:
  "noAvailableMovesF (Suc (Suc (Suc n))) c board pieces = Some (noAvailableMoves c board pieces)"
proof (induction pieces)
  case Nil
  then show ?case by simp
next
  case (Cons piece pieces)
  show ?case
    unfolding noAvailableMovesF.simps noAvailableMoves.simps
    by (intro bindO_bindE if_Some getAvailableMovesF_eq Cons.IH refl)
qed

text \<open>
  Claim C8. With a budget of three or more nested calls, \<^verbatim>\<open>getOpenMoves\<close> with either
  \<^verbatim>\<open>castle\<close> flag, \<^verbatim>\<open>inCheck\<close>, \<^verbatim>\<open>getAvailableMoves\<close>, \<^verbatim>\<open>inCheckmate\<close> and
  \<^verbatim>\<open>inStalemate\<close>, written with the recursion of the source, return on every piece,
  colour and board, and what they return (a value or an exception) is what the definitions
  of the earlier sections give. Three is enough because \<^verbatim>\<open>getOpenMoves(board, true)\<close>
  calls \<^verbatim>\<open>inCheck\<close>, \<^verbatim>\<open>inCheck\<close> calls \<^verbatim>\<open>getOpenMoves(board, false)\<close>, and that
  call skips the castling block, the only place that calls \<^verbatim>\<open>inCheck\<close>. Every other
  loop runs over the array of pieces, over a literal list of directions or columns, or, in
  \<open>slideWhile\<close>, towards the edge of the board; \<^verbatim>\<open>move\<close> is one pass over the array.
\<close>

theorem core_operations_terminate:
  assumes "3 \<le> fuel"
  shows "getOpenMovesF fuel piece board castle = Some (getOpenMoves piece board castle)
    \<and> inCheckF fuel c board = Some (inCheck c board)
    \<and> getAvailableMovesF fuel piece board = Some (getAvailableMoves piece board)
    \<and> inCheckmateF fuel c board = Some (inCheckmate c board)
    \<and> inStalemateF fuel c board = Some (inStalemate c board)"
proof -
  from assms have "fuel = Suc (Suc (Suc (fuel - 3)))"
    by simp
  then obtain n where fuel: "fuel = Suc (Suc (Suc n))" ..
  have "inCheckmateF fuel c board = Some (inCheckmate c board)"
    unfolding inCheckmateF_def inCheckmate_def fuel
    by (intro bindO_bindE if_Some inCheckF_eq noAvailableMovesF_eq refl)
  moreover have "inStalemateF fuel c board = Some (inStalemate c board)"
    unfolding inStalemateF_def inStalemate_def fuel
    by (intro bindO_bindE if_Some inCheckF_eq noAvailableMovesF_eq refl)
  ultimately show ?thesis
    unfolding fuel by (simp add: getOpenMovesF_eq inCheckF_eq getAvailableMovesF_eq)
qed

theorem core_operations_terminate_witness:
  "(3::nat) \<le> 3
   \<and> getOpenMovesF 3 (King White 4 7 True)
        [King White 4 7 True, Rook White 0 7 True, King Black 4 0 True] True
     = Some (Inr [Coordinate 5 6, Coordinate 3 6, Coordinate 5 7, Coordinate 3 7, Coordinate 4 6])
   \<and> inCheckF 3 White [King White 4 7 True, Rook White 0 7 True, King Black 4 0 True]
     = Some (Inr False)
   \<and> getAvailableMovesF 3 (King White 4 7 True)
        [King White 4 7 True, Rook White 0 7 True, King Black 4 0 True]
     = Some (Inr [Coordinate 5 6, Coordinate 3 6, Coordinate 5 7, Coordinate 3 7, Coordinate 4 6])
   \<and> inCheckmateF 3 White [King White 4 7 True, Rook White 0 7 True, King Black 4 0 True]
     = Some (Inr False)
   \<and> inStalemateF 3 White [King White 4 7 True, Rook White 0 7 True, King Black 4 0 True]
     = Some (Inr False)"
proof -
  let ?board = "[King White 4 7 True, Rook White 0 7 True, King Black 4 0 True]"
  let ?moves = "[Coordinate 5 6, Coordinate 3 6, Coordinate 5 7, Coordinate 3 7, Coordinate 4 6]"
  have budget: "(3::nat) \<le> 3"
    by simp
  have v1: "getOpenMoves (King White 4 7 True) ?board True = Inr ?moves"
    by code_simp
  have v2: "inCheck White ?board = Inr False"
    by code_simp
  have v3: "getAvailableMoves (King White 4 7 True) ?board = Inr ?moves"
    by code_simp
  have v4: "inCheckmate White ?board = Inr False"
    by code_simp
  have v5: "inStalemate White ?board = Inr False"
    by code_simp
  from core_operations_terminate [OF budget, of "King White 4 7 True" ?board True White]
  show ?thesis
    unfolding v1 v2 v3 v4 v5 using budget by simp
qed

end
